theory Spec2Isabelle
  imports Complex_Main "HOL-Library.Sublist"
begin

section \<open>JavaScript values\<close>

text \<open>
  A JavaScript string is a sequence of UTF-16 code units; a code unit is modelled as a
  natural number. \<open>str\<close> embeds an ASCII literal of the source.
\<close>

type_synonym js_string = "nat list"

definition str :: "string \<Rightarrow> js_string" where
  "str s = map of_char s"

text \<open>
  Numbers are IEEE doubles in the source. The model keeps the three non-finite values and
  the negative zero apart, because \<open>Number.isFinite\<close> and \<open>JSON.stringify\<close> treat them
  specially, and idealises every finite double as the rational number it denotes.
\<close>

datatype js_number = Finite rat | NegZero | NaN | PosInfinity | NegInfinity

fun isFinite :: "js_number \<Rightarrow> bool" where
  "isFinite (Finite r) = True"
| "isFinite NegZero = True"
| "isFinite NaN = False"
| "isFinite PosInfinity = False"
| "isFinite NegInfinity = False"

fun number_value :: "js_number \<Rightarrow> rat" where
  "number_value (Finite r) = r"
| "number_value NegZero = 0"
| "number_value NaN = 0"
| "number_value PosInfinity = 0"
| "number_value NegInfinity = 0"

text \<open>
  The values that \<open>JSON.parse\<close> produces and \<open>JSON.stringify\<close> consumes. An object is the
  list of its own properties in enumeration order; a property whose value is
  \<open>undefined\<close> is represented as an absent property.
\<close>

datatype js_value =
    JNull
  | JBool bool
  | JNum js_number
  | JStr js_string
  | JArr "js_value list"
  | JObj "(js_string \<times> js_value) list"

datatype js_type = T_undefined | T_object | T_boolean | T_number | T_string

fun typeof :: "js_value \<Rightarrow> js_type" where
  "typeof JNull = T_object"
| "typeof (JBool b) = T_boolean"
| "typeof (JNum n) = T_number"
| "typeof (JStr s) = T_string"
| "typeof (JArr xs) = T_object"
| "typeof (JObj ps) = T_object"

text \<open>\<open>!!v\<close>: the truthiness of a value.\<close>

fun truthy :: "js_value \<Rightarrow> bool" where
  "truthy JNull = False"
| "truthy (JBool b) = b"
| "truthy (JNum n) = (isFinite n \<and> number_value n \<noteq> 0 \<or> n = PosInfinity \<or> n = NegInfinity)"
| "truthy (JStr s) = (s \<noteq> [])"
| "truthy (JArr xs) = True"
| "truthy (JObj ps) = True"

text \<open>
  \<open>get_prop v k\<close> is the property read \<open>v.k\<close> for the property names this program reads
  (none of them is a property of arrays or of \<open>Object.prototype\<close>); \<open>None\<close> is
  \<open>undefined\<close>.
\<close>

fun get_prop :: "js_value \<Rightarrow> js_string \<Rightarrow> js_value option" where
  "get_prop (JObj ps) k = map_of ps k"
| "get_prop v k = None"

datatype js_error = SyntaxError | TypeError | Error js_string

subsection \<open>JSON text\<close>

text \<open>
  The program handles serialised text only through \<open>JSON.stringify\<close>, \<open>JSON.parse\<close> and
  a test for the empty string. A text is therefore represented by what \<open>JSON.parse\<close>
  does with it: \<open>Json_text v\<close> is a text that parses to \<open>v\<close>, \<open>Other_text s\<close> is a
  text \<open>s\<close> that \<open>JSON.parse\<close> rejects with a SyntaxError (the empty string is one).

  \<open>JSON.stringify\<close> writes a non-finite number as \<open>null\<close> and the negative zero as
  \<open>0\<close>; \<open>roundtrip v\<close> is the value that the text written for \<open>v\<close> parses to.
\<close>

datatype js_text = Json_text js_value | Other_text js_string

fun roundtrip :: "js_value \<Rightarrow> js_value" where
  "roundtrip JNull = JNull"
| "roundtrip (JBool b) = JBool b"
| "roundtrip (JNum n) =
     (case n of Finite r \<Rightarrow> JNum (Finite r) | NegZero \<Rightarrow> JNum (Finite 0) | _ \<Rightarrow> JNull)"
| "roundtrip (JStr s) = JStr s"
| "roundtrip (JArr xs) = JArr (map roundtrip xs)"
| "roundtrip (JObj ps) = JObj (map (\<lambda>(k, v). (k, roundtrip v)) ps)"

definition JSON_stringify :: "js_value \<Rightarrow> js_text" where
  "JSON_stringify v = Json_text (roundtrip v)"

fun JSON_parse :: "js_text \<Rightarrow> js_error + js_value" where
  "JSON_parse (Json_text v) = Inr v"
| "JSON_parse (Other_text s) = Inl SyntaxError"

text \<open>\<open>!raw\<close> for a string: only the empty string is falsy.\<close>

fun is_empty_text :: "js_text \<Rightarrow> bool" where
  "is_empty_text (Other_text s) = (s = [])"
| "is_empty_text (Json_text v) = False"

section \<open>The browser's local storage\<close>

type_synonym storage = "js_string \<rightharpoonup> js_text"

text \<open>
  The global environment: there may be no \<open>window\<close> (server-side rendering), or a window
  without \<open>localStorage\<close>, or a window with one. A browser that refuses the read of
  \<open>window.localStorage\<close> with an exception is outside the model.
\<close>

datatype global = NoWindow | Window "storage option"

text \<open>
  \<open>typeof window !== "undefined" && typeof window.localStorage !== "undefined"\<close>.
\<close>

fun canUseStorage :: "global \<Rightarrow> bool" where
  "canUseStorage NoWindow = False"
| "canUseStorage (Window None) = False"
| "canUseStorage (Window (Some store)) = True"

definition getItem :: "storage \<Rightarrow> js_string \<Rightarrow> js_text option" where
  "getItem store k = store k"

definition setItem :: "storage \<Rightarrow> js_string \<Rightarrow> js_text \<Rightarrow> storage" where
  "setItem store k v = store(k \<mapsto> v)"

definition removeItem :: "storage \<Rightarrow> js_string \<Rightarrow> storage" where
  "removeItem store k = store(k := None)"

section \<open>The query-activity log\<close>

definition STORAGE_KEY :: js_string where
  "STORAGE_KEY = str ''intellecta.queryActivity.v1''"

definition MAX_ENTRIES :: nat where
  "MAX_ENTRIES = 200"

text \<open>The filter of \<open>getQueryActivity\<close>: \<open>!!e && typeof e === "object"\<close>.\<close>

definition is_entry_object :: "js_value \<Rightarrow> bool" where
  "is_entry_object e = (truthy e \<and> typeof e = T_object)"

text \<open>
  The body of the \<open>try\<close> block of \<open>getQueryActivity\<close>; \<open>JSON.parse\<close> may throw. A
  parsed value that is not an array (\<open>!Array.isArray(parsed)\<close>) gives the empty list.
\<close>

definition getQueryActivity_try :: "storage \<Rightarrow> js_error + js_value list" where
  "getQueryActivity_try store =
     (case getItem store STORAGE_KEY of
        None \<Rightarrow> Inr []
      | Some raw \<Rightarrow>
          if is_empty_text raw then Inr []
          else (case JSON_parse raw of
                  Inl err \<Rightarrow> Inl err
                | Inr parsed \<Rightarrow>
                    (case parsed of
                       JArr xs \<Rightarrow> Inr (filter is_entry_object xs)
                     | _ \<Rightarrow> Inr [])))"

text \<open>
  \<open>getQueryActivity\<close>: the guard, then the \<open>try\<close> block, whose \<open>catch\<close> returns the
  empty list. Reading \<open>window.localStorage\<close> where there is none would be a TypeError.
\<close>

definition getQueryActivity :: "global \<Rightarrow> js_error + js_value list" where
  "getQueryActivity g =
     (if \<not> canUseStorage g then Inr []
      else (case g of
              Window (Some store) \<Rightarrow>
                (case getQueryActivity_try store of
                   Inl err \<Rightarrow> Inr []
                 | Inr entries \<Rightarrow> Inr entries)
            | _ \<Rightarrow> Inl TypeError))"

text \<open>
  \<open>appendQueryActivity\<close>: \<open>[entry, ...current].slice(0, MAX_ENTRIES)\<close> is serialised and
  stored under the key. The storage is taken to have room for the text.
\<close>

definition appendQueryActivity :: "js_value \<Rightarrow> global \<Rightarrow> js_error + global" where
  "appendQueryActivity entry g =
     (if \<not> canUseStorage g then Inr g
      else (case getQueryActivity g of
              Inl err \<Rightarrow> Inl err
            | Inr current \<Rightarrow>
                (let next = take MAX_ENTRIES (entry # current) in
                 case g of
                   Window (Some store) \<Rightarrow>
                     Inr (Window (Some (setItem store STORAGE_KEY (JSON_stringify (JArr next)))))
                 | _ \<Rightarrow> Inl TypeError)))"

definition clearQueryActivity :: "global \<Rightarrow> js_error + global" where
  "clearQueryActivity g =
     (if \<not> canUseStorage g then Inr g
      else (case g of
              Window (Some store) \<Rightarrow> Inr (Window (Some (removeItem store STORAGE_KEY)))
            | _ \<Rightarrow> Inl TypeError))"

section \<open>Summary of the query activity\<close>

text \<open>
  An entry as the interface \<open>QueryActivityEntry\<close> declares it. An optional field is an
  \<open>option\<close>; \<open>sources\<close> is one too, because the code reads it as \<open>e.sources ?? []\<close>.
\<close>

record QueryActivityEntry =
  id_entry :: js_string
  timestamp :: js_string
  query :: js_string
  sources :: "js_string list option"
  retrieval_time_ms :: "js_number option"
  generation_time_ms :: "js_number option"
  total_time_ms :: "js_number option"
  answer_length_chars :: "js_number option"
  success :: bool
  error_message :: "js_string option"

record source_count =
  source :: js_string
  count :: nat

record QueryActivitySummary =
  total_queries :: nat
  success_rate :: js_number
  avg_retrieval_time_ms :: "js_number option"
  avg_generation_time_ms :: "js_number option"
  avg_total_time_ms :: "js_number option"
  unique_sources_count :: nat
  top_sources :: "source_count list"

text \<open>
  The division of two finite numbers: by zero it gives \<open>NaN\<close> or an infinity, and no
  exception. Sums and quotients are exact here, where the source rounds to doubles.
\<close>

definition js_divide :: "rat \<Rightarrow> rat \<Rightarrow> js_number" where
  "js_divide a b =
     (if b = 0 then (if a = 0 then NaN else if 0 < a then PosInfinity else NegInfinity)
      else Finite (a / b))"

text \<open>\<open>Math.round\<close> rounds to the nearest integer, a half upwards.\<close>

fun Math_round :: "js_number \<Rightarrow> js_number" where
  "Math_round (Finite r) = Finite (of_int \<lfloor>r + 1 / 2\<rfloor>)"
| "Math_round n = n"

definition avg :: "rat list \<Rightarrow> js_number option" where
  "avg nums =
     (if length nums = 0 then None
      else Some (Math_round (js_divide (foldl (\<lambda>a b. a + b) 0 nums) (of_nat (length nums)))))"

text \<open>
  The type guard \<open>typeof n === "number" && Number.isFinite(n)\<close> of the three filters,
  with the number it lets through.
\<close>

definition finite_number :: "js_number option \<Rightarrow> rat option" where
  "finite_number n =
     (case n of
        None \<Rightarrow> None
      | Some x \<Rightarrow> if isFinite x then Some (number_value x) else None)"

text \<open>
  A \<open>Map\<close> keeps its keys in the order of their first insertion: it is a list of pairs
  with distinct keys, \<open>set\<close> overwrites in place or appends.
\<close>

fun map_set :: "('k \<times> 'v) list \<Rightarrow> 'k \<Rightarrow> 'v \<Rightarrow> ('k \<times> 'v) list" where
  "map_set [] k v = [(k, v)]"
| "map_set ((k', v') # m) k v =
     (if k' = k then (k', v) # m else (k', v') # map_set m k v)"

definition map_get :: "('k \<times> 'v) list \<Rightarrow> 'k \<Rightarrow> 'v option" where
  "map_get m k = map_of m k"

text \<open>\<open>counts.set(s, (counts.get(s) ?? 0) + 1)\<close>.\<close>

definition count_source :: "(js_string \<times> nat) list \<Rightarrow> js_string \<Rightarrow> (js_string \<times> nat) list" where
  "count_source counts s =
     map_set counts s ((case map_get counts s of None \<Rightarrow> 0 | Some c \<Rightarrow> c) + 1)"

text \<open>\<open>e.sources ?? []\<close>.\<close>

definition entry_sources :: "QueryActivityEntry \<Rightarrow> js_string list" where
  "entry_sources e = (case sources e of None \<Rightarrow> [] | Some ss \<Rightarrow> ss)"

text \<open>The inner loop over the sources of one entry.\<close>

definition count_entry ::
  "(js_string \<times> nat) list \<Rightarrow> QueryActivityEntry \<Rightarrow> (js_string \<times> nat) list" where
  "count_entry counts e = foldl count_source counts (entry_sources e)"

text \<open>
  \<open>Array.prototype.sort\<close> is stable: an insertion sort, where \<open>cmp a b \<le> 0\<close> keeps \<open>a\<close>
  before \<open>b\<close>.
\<close>

fun insert_sorted :: "('a \<Rightarrow> 'a \<Rightarrow> int) \<Rightarrow> 'a \<Rightarrow> 'a list \<Rightarrow> 'a list" where
  "insert_sorted cmp x [] = [x]"
| "insert_sorted cmp x (y # ys) =
     (if cmp x y \<le> 0 then x # y # ys else y # insert_sorted cmp x ys)"

definition js_sort :: "('a \<Rightarrow> 'a \<Rightarrow> int) \<Rightarrow> 'a list \<Rightarrow> 'a list" where
  "js_sort cmp xs = foldr (insert_sorted cmp) xs []"

definition summarizeQueryActivity :: "QueryActivityEntry list \<Rightarrow> QueryActivitySummary" where
  "summarizeQueryActivity entries =
     (let total = length entries;
          successCount = length (filter success entries);
          retrieval = List.map_filter finite_number (map retrieval_time_ms entries);
          generation = List.map_filter finite_number (map generation_time_ms entries);
          totalTimes = List.map_filter finite_number (map total_time_ms entries);
          counts = foldl count_entry [] entries;
          top_sources' =
            map (\<lambda>(s, c). \<lparr>source = s, count = c\<rparr>)
              (take 20 (js_sort (\<lambda>a b. int (snd b) - int (snd a)) counts))
      in \<lparr>total_queries = total,
          success_rate =
            (if total = 0 then Finite 0 else js_divide (of_nat successCount) (of_nat total)),
          avg_retrieval_time_ms = avg retrieval,
          avg_generation_time_ms = avg generation,
          avg_total_time_ms = avg totalTimes,
          unique_sources_count = length counts,
          top_sources = top_sources'\<rparr>)"

section \<open>System configuration\<close>

record SystemConfig =
  embedding_model :: js_string
  language_models :: "js_string list"
  vector_database :: js_string
  chunk_size :: js_number
  chunk_overlap :: js_number
  storage_path :: js_string

definition mockConfig :: SystemConfig where
  "mockConfig =
     \<lparr>embedding_model = str ''Qwen/Qwen3-VL-Embedding-2B'',
      language_models = [str ''LLaMA 3.2 8B''],
      vector_database = str ''Qdrant'',
      chunk_size = Finite 512,
      chunk_overlap = Finite 50,
      storage_path = str ''qdrant://localhost:6333''\<rparr>"

text \<open>
  \<open>String.prototype.trim\<close> removes the white space and line terminators of ECMAScript
  from both ends.
\<close>

definition is_whitespace :: "nat \<Rightarrow> bool" where
  "is_whitespace c =
     (c \<in> {9, 10, 11, 12, 13, 32, 160, 5760, 8232, 8233, 8239, 8287, 12288, 65279}
      \<or> (8192 \<le> c \<and> c \<le> 8202))"

definition trim :: "js_string \<Rightarrow> js_string" where
  "trim s = rev (dropWhile is_whitespace (rev (dropWhile is_whitespace s)))"

text \<open>The type guard \<open>typeof m === 'string' && m.trim().length > 0\<close>.\<close>

definition nonblank_string :: "js_value \<Rightarrow> js_string option" where
  "nonblank_string m =
     (case m of
        JStr s \<Rightarrow> if length (trim s) > 0 then Some s else None
      | _ \<Rightarrow> None)"

text \<open>\<open>typeof v === 'string' ? v : d\<close> and its analogue for numbers, on a property read.\<close>

definition string_or :: "js_value option \<Rightarrow> js_string \<Rightarrow> js_string" where
  "string_or v d = (case v of Some (JStr s) \<Rightarrow> s | _ \<Rightarrow> d)"

definition number_or :: "js_value option \<Rightarrow> js_number \<Rightarrow> js_number" where
  "number_or v d = (case v of Some (JNum n) \<Rightarrow> n | _ \<Rightarrow> d)"

definition normalizeSystemConfig :: "js_value \<Rightarrow> SystemConfig" where
  "normalizeSystemConfig raw =
     (if \<not> truthy raw \<or> typeof raw \<noteq> T_object then mockConfig
      else
        (let languageModels =
               (case get_prop raw (str ''language_models'') of
                  Some (JArr ms) \<Rightarrow> List.map_filter nonblank_string ms
                | _ \<Rightarrow>
                    (case get_prop raw (str ''language_model'') of
                       Some (JStr s) \<Rightarrow>
                         if length (trim s) > 0 then [s] else language_models mockConfig
                     | _ \<Rightarrow> language_models mockConfig))
         in \<lparr>embedding_model =
                string_or (get_prop raw (str ''embedding_model'')) (embedding_model mockConfig),
             language_models = languageModels,
             vector_database =
                string_or (get_prop raw (str ''vector_database'')) (vector_database mockConfig),
             chunk_size = number_or (get_prop raw (str ''chunk_size'')) (chunk_size mockConfig),
             chunk_overlap =
                number_or (get_prop raw (str ''chunk_overlap'')) (chunk_overlap mockConfig),
             storage_path =
                string_or (get_prop raw (str ''storage_path'')) (storage_path mockConfig)\<rparr>))"

section \<open>Calls to the backend\<close>

definition API_BASE_URL :: js_string where
  "API_BASE_URL = str ''http://localhost:8000''"

datatype SecurityLevel = PUBLIC | INTERNAL | CONFIDENTIAL | RESTRICTED | TOP_SECRET

text \<open>In the source a security level is the string of its name.\<close>

fun level_name :: "SecurityLevel \<Rightarrow> js_string" where
  "level_name PUBLIC = str ''PUBLIC''"
| "level_name INTERNAL = str ''INTERNAL''"
| "level_name CONFIDENTIAL = str ''CONFIDENTIAL''"
| "level_name RESTRICTED = str ''RESTRICTED''"
| "level_name TOP_SECRET = str ''TOP_SECRET''"

text \<open>
  \<open>fetch\<close> is the environment: a request is answered by a response, or the promise is
  rejected (the network is down). \<open>response.json()\<close> parses the body of the response.
\<close>

record http_request =
  url :: js_string
  http_method :: js_string
  headers :: "(js_string \<times> js_string) list"
  body :: js_text

record http_response =
  ok :: bool
  statusText :: js_string
  response_body :: js_text

datatype fetch_result = Rejected js_error | Resolved http_response

type_synonym fetch = "http_request \<Rightarrow> fetch_result"

text \<open>
  A backend call fails when \<open>fetch\<close> rejects or the response is not \<open>ok\<close>.
\<close>

definition backend_call_fails :: "fetch_result \<Rightarrow> bool" where
  "backend_call_fails outcome =
     (case outcome of Rejected err \<Rightarrow> True | Resolved response \<Rightarrow> \<not> ok response)"

definition response_json :: "http_response \<Rightarrow> js_error + js_value" where
  "response_json response = JSON_parse (response_body response)"

text \<open>A backend call errors when it fails or the body of its response is not JSON.\<close>

definition backend_call_errors :: "fetch_result \<Rightarrow> bool" where
  "backend_call_errors outcome =
     (case outcome of
        Rejected err \<Rightarrow> True
      | Resolved response \<Rightarrow> \<not> ok response \<or> isl (response_json response))"

text \<open>\<open>null\<close> for an absent optional argument, the value otherwise.\<close>

definition nullable :: "('a \<Rightarrow> js_value) \<Rightarrow> 'a option \<Rightarrow> js_value" where
  "nullable f v = (case v of None \<Rightarrow> JNull | Some x \<Rightarrow> f x)"

subsection \<open>queryRAG\<close>

text \<open>
  The parameters \<open>language\<close> and \<open>securityClearance\<close> have the defaults \<open>'en'\<close> and
  \<open>'CONFIDENTIAL'\<close>, taken when the caller leaves the argument out (\<open>None\<close>);
  \<open>documentIds\<close> and \<open>fastMode\<close> are \<open>null\<close> by default, and \<open>None\<close> is \<open>null\<close>.
\<close>

definition queryRAG_request ::
  "js_string \<Rightarrow> js_string \<Rightarrow> SecurityLevel \<Rightarrow> js_string list option \<Rightarrow> bool option
     \<Rightarrow> http_request" where
  "queryRAG_request query_text language securityClearance documentIds fastMode =
     \<lparr>url = API_BASE_URL @ str ''/query'',
      http_method = str ''POST'',
      headers = [(str ''Content-Type'', str ''application/json'')],
      body = JSON_stringify (JObj
        [(str ''query'', JStr query_text),
         (str ''language'', JStr language),
         (str ''security_clearance'', JStr (level_name securityClearance)),
         (str ''document_ids'', nullable (\<lambda>ids. JArr (map JStr ids)) documentIds),
         (str ''fast_mode'', nullable JBool fastMode)])\<rparr>"

text \<open>The simulated response that the \<open>catch\<close> branch of \<open>queryRAG\<close> returns.\<close>

definition simulated_answer :: "js_string \<Rightarrow> js_string" where
  "simulated_answer query_text =
     str ''This is a simulated response for the query: '' @ [34] @ query_text @ [34, 10, 10]
     @ str ''In a production environment, this would contain the actual generated response from the local LLM based on retrieved context from your ingested documents.''
     @ [10, 10]
     @ [48376, 32, 49884, 49828, 53596, 51008, 32, 54620, 44397, 50612, 32, 51656, 51032,
        46020, 32, 51648, 50896, 54633, 45768, 45796, 46, 32, 47928, 49436, 50640, 49436,
        32, 44288, 47144, 32, 51221, 48372, 47484, 32, 44160, 49353, 54616, 50668, 32,
        45813, 48320, 51012, 32, 49373, 49457, 54633, 45768, 45796, 46]"

definition simulated_response :: "js_string \<Rightarrow> js_value" where
  "simulated_response query_text =
     JObj [(str ''answer'', JStr (simulated_answer query_text)),
           (str ''sources'',
              JArr [JStr (str ''document1.pdf (page 3)''),
                    JStr (str ''document2.txt (chunk 7)''),
                    JStr (str ''notes.docx (section 2)'')]),
           (str ''retrieval_time_ms'', JNum (Finite 245)),
           (str ''generation_time_ms'', JNum (Finite 1823))]"

text \<open>The \<open>try\<close> block of \<open>queryRAG\<close>, on the outcome of its \<open>fetch\<close>.\<close>

definition queryRAG_try :: "fetch_result \<Rightarrow> js_error + js_value" where
  "queryRAG_try outcome =
     (case outcome of
        Rejected err \<Rightarrow> Inl err
      | Resolved response \<Rightarrow>
          if \<not> ok response then Inl (Error (str ''Query failed: '' @ statusText response))
          else response_json response)"

text \<open>
  \<open>queryRAG\<close> returns what the promise settles to, together with the requests it sent.
  The delay of 1500 ms before the simulated response is not modelled.
\<close>

definition queryRAG ::
  "fetch \<Rightarrow> js_string \<Rightarrow> js_string option \<Rightarrow> SecurityLevel option \<Rightarrow> js_string list option
     \<Rightarrow> bool option \<Rightarrow> (js_error + js_value) \<times> http_request list" where
  "queryRAG fetch query_text language securityClearance documentIds fastMode =
     (let request =
            queryRAG_request query_text
              (case language of None \<Rightarrow> str ''en'' | Some l \<Rightarrow> l)
              (case securityClearance of None \<Rightarrow> CONFIDENTIAL | Some c \<Rightarrow> c)
              documentIds fastMode
      in (case queryRAG_try (fetch request) of
            Inl error \<Rightarrow> Inr (simulated_response query_text)
          | Inr response \<Rightarrow> Inr response,
          [request]))"

subsection \<open>autoDetectSecurity\<close>

definition autoDetectSecurity_request :: "js_string list \<Rightarrow> http_request" where
  "autoDetectSecurity_request documentIds =
     \<lparr>url = API_BASE_URL @ str ''/security/auto-detect'',
      http_method = str ''POST'',
      headers = [(str ''Content-Type'', str ''application/json'')],
      body = JSON_stringify (JObj [(str ''document_ids'', JArr (map JStr documentIds))])\<rparr>"

text \<open>The default that the \<open>catch\<close> branch of \<open>autoDetectSecurity\<close> returns.\<close>

definition default_detection :: js_value where
  "default_detection =
     JObj [(str ''detected_level'', JStr (level_name PUBLIC)),
           (str ''level_value'', JNum (Finite 1)),
           (str ''confidence'', JNum (Finite 0)),
           (str ''findings_count'', JNum (Finite 0)),
           (str ''findings'', JArr []),
           (str ''recommendation'',
              JStr (str ''Unable to analyze documents. Defaulting to PUBLIC access.''))]"

definition autoDetectSecurity_try :: "fetch_result \<Rightarrow> js_error + js_value" where
  "autoDetectSecurity_try outcome =
     (case outcome of
        Rejected err \<Rightarrow> Inl err
      | Resolved response \<Rightarrow>
          if \<not> ok response
          then Inl (Error (str ''Security auto-detect failed: '' @ statusText response))
          else response_json response)"

definition autoDetectSecurity ::
  "fetch \<Rightarrow> js_string list \<Rightarrow> (js_error + js_value) \<times> http_request list" where
  "autoDetectSecurity fetch documentIds =
     (let request = autoDetectSecurity_request documentIds
      in (case autoDetectSecurity_try (fetch request) of
            Inl error \<Rightarrow> Inr default_detection
          | Inr response \<Rightarrow> Inr response,
          [request]))"

text \<open>
  Modelled from the spec: the ordinal encoding of the security levels, which the client
  code does not define (the backend, which computes \<open>level_value\<close>, is not part of the
  sources): PUBLIC=0, INTERNAL=1, CONFIDENTIAL=2, RESTRICTED=3, TOP_SECRET=4.
\<close>

fun level_ordinal :: "SecurityLevel \<Rightarrow> nat" where
  "level_ordinal PUBLIC = 0"
| "level_ordinal INTERNAL = 1"
| "level_ordinal CONFIDENTIAL = 2"
| "level_ordinal RESTRICTED = 3"
| "level_ordinal TOP_SECRET = 4"

subsection \<open>Two failing backends\<close>

text \<open>A backend that cannot be reached, and one that answers every request with 500.\<close>

definition backend_unreachable :: fetch where
  "backend_unreachable request = Rejected TypeError"

definition backend_failing :: fetch where
  "backend_failing request =
     Resolved \<lparr>ok = False, statusText = str ''Internal Server Error'',
               response_body = Other_text []\<rparr>"

section \<open>Strings and serialisation\<close>

lemma str_eq_iff [simp]: "str a = str b \<longleftrightarrow> a = b"
  unfolding str_def by (simp add: inj_map_eq_map inj_on_def)

lemma roundtrip_strings [simp]: "map roundtrip (map JStr xs) = map JStr xs"
  by (induction xs) simp_all

lemma is_entry_object_iff:
  "is_entry_object e \<longleftrightarrow> e \<noteq> JNull \<and> typeof e = T_object"
  by (cases e) (auto simp: is_entry_object_def)



section \<open>Properties of the query-activity log\<close>

lemma getQueryActivity_try_filter:
  "getQueryActivity_try store = Inr xs \<Longrightarrow> list_all is_entry_object xs"
  by (auto simp: getQueryActivity_try_def list_all_iff
           split: option.splits if_splits sum.splits js_value.splits)

lemma getQueryActivity_total: "\<exists>xs. getQueryActivity g = Inr xs"
  by (cases g rule: canUseStorage.cases)
     (auto simp: getQueryActivity_def split: sum.splits)

lemma getQueryActivity_objects:
  "getQueryActivity g = Inr xs \<Longrightarrow> list_all is_entry_object xs"
  by (cases g rule: canUseStorage.cases)
     (auto simp: getQueryActivity_def dest: getQueryActivity_try_filter split: sum.splits)

lemma getQueryActivity_stored_array:
  "getQueryActivity (Window (Some (store(STORAGE_KEY \<mapsto> Json_text (JArr ys)))))
     = Inr (filter is_entry_object ys)"
  by (simp add: getQueryActivity_def getQueryActivity_try_def getItem_def)

lemma getQueryActivity_removed:
  "getQueryActivity (Window (Some (store(STORAGE_KEY := None)))) = Inr []"
  by (simp add: getQueryActivity_def getQueryActivity_try_def getItem_def)

lemma appendQueryActivity_stores:
  assumes "getQueryActivity (Window (Some store)) = Inr current"
  shows "appendQueryActivity entry (Window (Some store)) =
           Inr (Window (Some (store(STORAGE_KEY \<mapsto>
                  Json_text (JArr (map roundtrip (take MAX_ENTRIES (entry # current))))))))"
  using assms by (simp add: appendQueryActivity_def setItem_def JSON_stringify_def)

text \<open>
  Claim C2. With a usable local storage, whatever list \<open>current\<close> the log holds and
  whatever the new entry is, \<open>appendQueryActivity\<close> stores an array \<open>kept\<close> of at most
  200 entries: the new entry first, then the 199 newest of the prior entries in their
  order. What is dropped is \<open>drop 199 current\<close>, the oldest entries at the tail of the
  newest-first list, and never the new entry. The stored text is the serialisation, so
  the entries appear as \<open>JSON.stringify\<close> writes them (\<open>roundtrip\<close>).
\<close>

theorem appendQueryActivity_bounded:
  assumes "canUseStorage g" and "getQueryActivity g = Inr current"
  shows "\<exists>store' kept. appendQueryActivity entry g = Inr (Window (Some store'))
           \<and> getItem store' STORAGE_KEY = Some (Json_text (JArr kept))
           \<and> length kept \<le> 200
           \<and> length kept = min 200 (Suc (length current))
           \<and> kept = roundtrip entry # map roundtrip (take 199 current)"
proof -
  from assms(1) obtain store where g: "g = Window (Some store)"
    by (cases g rule: canUseStorage.cases) auto
  define kept where "kept = map roundtrip (take MAX_ENTRIES (entry # current))"
  define store' where "store' = store(STORAGE_KEY \<mapsto> Json_text (JArr kept))"
  have "appendQueryActivity entry g = Inr (Window (Some store'))"
    using assms(2) unfolding g store'_def kept_def by (rule appendQueryActivity_stores)
  moreover have "getItem store' STORAGE_KEY = Some (Json_text (JArr kept))"
    by (simp add: getItem_def store'_def)
  moreover have "kept = roundtrip entry # map roundtrip (take 199 current)"
    by (simp add: MAX_ENTRIES_def kept_def)
  moreover have "length kept = min 200 (Suc (length current))"
    by (simp add: MAX_ENTRIES_def kept_def)
  moreover have "length kept \<le> 200"
    by (simp add: MAX_ENTRIES_def kept_def)
  ultimately show ?thesis by blast
qed

text \<open>The bound at work: a log of 200 entries takes a new one and drops its oldest.\<close>

theorem appendQueryActivity_bounded_witness:
  "canUseStorage (Window (Some [STORAGE_KEY \<mapsto>
       Json_text (JArr (replicate 200 (JObj [(str ''id'', JStr (str ''old''))])))]))
   \<and> getQueryActivity (Window (Some [STORAGE_KEY \<mapsto>
       Json_text (JArr (replicate 200 (JObj [(str ''id'', JStr (str ''old''))])))]))
       = Inr (replicate 200 (JObj [(str ''id'', JStr (str ''old''))]))
   \<and> (\<exists>store' kept.
         appendQueryActivity (JObj [(str ''id'', JStr (str ''new''))])
           (Window (Some [STORAGE_KEY \<mapsto>
              Json_text (JArr (replicate 200 (JObj [(str ''id'', JStr (str ''old''))])))]))
           = Inr (Window (Some store'))
         \<and> getItem store' STORAGE_KEY = Some (Json_text (JArr kept))
         \<and> length kept = 200
         \<and> kept = JObj [(str ''id'', JStr (str ''new''))]
                    # replicate 199 (JObj [(str ''id'', JStr (str ''old''))]))"
proof -
  let ?old = "JObj [(str ''id'', JStr (str ''old''))]"
  let ?g = "Window (Some [STORAGE_KEY \<mapsto> Json_text (JArr (replicate 200 ?old))])"
  have h1: "canUseStorage ?g" by simp
  have h2: "getQueryActivity ?g = Inr (replicate 200 ?old)"
    by (simp add: getQueryActivity_stored_array is_entry_object_def)
  from appendQueryActivity_bounded [OF h1 h2, of "JObj [(str ''id'', JStr (str ''new''))]"]
  obtain store' kept where
    "appendQueryActivity (JObj [(str ''id'', JStr (str ''new''))]) ?g = Inr (Window (Some store'))"
    "getItem store' STORAGE_KEY = Some (Json_text (JArr kept))"
    "length kept = min 200 (Suc (length (replicate 200 ?old)))"
    "kept = roundtrip (JObj [(str ''id'', JStr (str ''new''))])
              # map roundtrip (take 199 (replicate 200 ?old))"
    by blast
  then have "appendQueryActivity (JObj [(str ''id'', JStr (str ''new''))]) ?g = Inr (Window (Some store'))
      \<and> getItem store' STORAGE_KEY = Some (Json_text (JArr kept))
      \<and> length kept = 200
      \<and> kept = JObj [(str ''id'', JStr (str ''new''))] # replicate 199 ?old"
    by simp
  with h1 h2 show ?thesis by blast
qed



text \<open>
  Claim C7. In every environment \<open>clearQueryActivity\<close> succeeds; a second clear
  succeeds too and leaves the state that the first one left; and after a clear
  \<open>getQueryActivity\<close> returns the empty list. A clear of a storage that has no log
  succeeds and changes nothing.
\<close>

theorem clearQueryActivity_idempotent:
  "(\<exists>g'. clearQueryActivity g = Inr g' \<and> clearQueryActivity g' = Inr g'
         \<and> getQueryActivity g' = Inr [])
   \<and> clearQueryActivity (Window (Some (store(STORAGE_KEY := None))))
       = Inr (Window (Some (store(STORAGE_KEY := None))))"
proof -
  have "\<exists>g'. clearQueryActivity g = Inr g' \<and> clearQueryActivity g' = Inr g'
         \<and> getQueryActivity g' = Inr []"
    by (cases g rule: canUseStorage.cases)
       (simp_all add: clearQueryActivity_def removeItem_def getQueryActivity_def
          getQueryActivity_try_def getItem_def)
  moreover have "clearQueryActivity (Window (Some (store(STORAGE_KEY := None))))
       = Inr (Window (Some (store(STORAGE_KEY := None))))"
    by (simp add: clearQueryActivity_def removeItem_def)
  ultimately show ?thesis by blast
qed

text \<open>
  Claim C8. \<open>getQueryActivity\<close> returns a list in every environment and for every stored
  text, and never throws; every element of the list is a non-null object (in the sense
  of \<open>typeof\<close>, which arrays share). Without storage, with the key absent, with a text
  that is not JSON, and with JSON that is not an array the list is empty; of a stored
  array exactly the non-null objects are kept, in order.
\<close>

theorem getQueryActivity_never_throws:
  "(\<exists>xs. getQueryActivity g = Inr xs \<and> list_all (\<lambda>e. e \<noteq> JNull \<and> typeof e = T_object) xs)
   \<and> getQueryActivity NoWindow = Inr []
   \<and> getQueryActivity (Window None) = Inr []
   \<and> getQueryActivity (Window (Some (store(STORAGE_KEY := None)))) = Inr []
   \<and> getQueryActivity (Window (Some (store(STORAGE_KEY \<mapsto> Other_text s)))) = Inr []
   \<and> getQueryActivity (Window (Some (store(STORAGE_KEY \<mapsto> Json_text v)))) =
       Inr (case v of JArr ys \<Rightarrow> filter (\<lambda>e. e \<noteq> JNull \<and> typeof e = T_object) ys | _ \<Rightarrow> [])"
proof -
  have eq: "is_entry_object = (\<lambda>e. e \<noteq> JNull \<and> typeof e = T_object)"
    by (rule ext) (rule is_entry_object_iff)
  obtain xs where xs: "getQueryActivity g = Inr xs"
    using getQueryActivity_total by blast
  then have "list_all is_entry_object xs"
    by (rule getQueryActivity_objects)
  with xs have 1: "\<exists>xs. getQueryActivity g = Inr xs \<and> list_all (\<lambda>e. e \<noteq> JNull \<and> typeof e = T_object) xs"
    by (auto simp: eq)
  have 2: "getQueryActivity NoWindow = Inr []" "getQueryActivity (Window None) = Inr []"
    by (simp_all add: getQueryActivity_def)
  have 3: "getQueryActivity (Window (Some (store(STORAGE_KEY := None)))) = Inr []"
    by (rule getQueryActivity_removed)
  have 4: "getQueryActivity (Window (Some (store(STORAGE_KEY \<mapsto> Other_text s)))) = Inr []"
    by (simp add: getQueryActivity_def getQueryActivity_try_def getItem_def)
  have 5: "getQueryActivity (Window (Some (store(STORAGE_KEY \<mapsto> Json_text v)))) =
       Inr (case v of JArr ys \<Rightarrow> filter (\<lambda>e. e \<noteq> JNull \<and> typeof e = T_object) ys | _ \<Rightarrow> [])"
    by (simp add: getQueryActivity_def getQueryActivity_try_def getItem_def eq split: js_value.splits)
  from 1 2 3 4 5 show ?thesis by blast
qed

section \<open>Properties of the summary\<close>

lemma success_rate_bounds:
  "\<exists>r. success_rate (summarizeQueryActivity entries) = Finite r \<and> 0 \<le> r \<and> r \<le> 1"
proof (cases "length entries = 0")
  case True
  then show ?thesis by (simp add: summarizeQueryActivity_def Let_def)
next
  case False
  have "(of_nat (length (filter success entries)) :: rat) \<le> of_nat (length entries)"
    by (simp only: of_nat_le_iff length_filter_le)
  with False show ?thesis
    by (simp add: summarizeQueryActivity_def Let_def js_divide_def divide_le_eq_1)
qed

lemma map_set_keys:
  "map fst (map_set m k v) = (if k \<in> set (map fst m) then map fst m else map fst m @ [k])"
  by (induction m) force+

lemma count_source_keys:
  "map fst (count_source counts s) =
     (if s \<in> set (map fst counts) then map fst counts else map fst counts @ [s])"
  unfolding count_source_def by (rule map_set_keys)

lemma foldl_count_source_keys:
  "distinct (map fst c) \<Longrightarrow>
     distinct (map fst (foldl count_source c ss))
     \<and> set (map fst (foldl count_source c ss)) = set (map fst c) \<union> set ss"
proof (induction ss arbitrary: c)
  case Nil
  then show ?case by simp
next
  case (Cons s ss)
  have d: "distinct (map fst (count_source c s))"
    using Cons.prems by (simp add: count_source_keys)
  have s: "set (map fst (count_source c s)) = insert s (set (map fst c))"
    by (auto simp: count_source_keys)
  from Cons.IH [OF d] s show ?case by auto
qed

lemma foldl_count_entry_keys:
  "distinct (map fst c) \<Longrightarrow>
     distinct (map fst (foldl count_entry c es))
     \<and> set (map fst (foldl count_entry c es))
         = set (map fst c) \<union> (\<Union>e\<in>set es. set (entry_sources e))"
proof (induction es arbitrary: c)
  case Nil
  then show ?case by simp
next
  case (Cons e es)
  have step: "distinct (map fst (count_entry c e))
     \<and> set (map fst (count_entry c e)) = set (map fst c) \<union> set (entry_sources e)"
    using foldl_count_source_keys [OF Cons.prems, of "entry_sources e"]
    by (simp add: count_entry_def entry_sources_def)
  from Cons.IH [of "count_entry c e"] step show ?case by auto
qed

lemma unique_sources:
  "unique_sources_count (summarizeQueryActivity entries)
     = card (\<Union>e\<in>set entries. set (entry_sources e))"
proof -
  let ?counts = "foldl count_entry [] entries"
  have k: "distinct (map fst ?counts)"
    "set (map fst ?counts) = (\<Union>e\<in>set entries. set (entry_sources e))"
    using foldl_count_entry_keys [of "[]" entries] by simp_all
  have "length ?counts = length (map fst ?counts)" by simp
  also have "\<dots> = card (set (map fst ?counts))"
    using k(1) by (rule distinct_card [symmetric])
  also have "\<dots> = card (\<Union>e\<in>set entries. set (entry_sources e))"
    by (simp only: k(2))
  finally show ?thesis
    by (simp add: summarizeQueryActivity_def Let_def)
qed

lemma set_insert_sorted: "set (insert_sorted cmp x xs) = insert x (set xs)"
  by (induction xs) auto

lemma insert_sorted_descending:
  "sorted_wrt (\<lambda>a b. f b \<le> f a) xs \<Longrightarrow>
     sorted_wrt (\<lambda>a b. f b \<le> f a) (insert_sorted (\<lambda>a b. int (f b) - int (f a)) x xs)"
  by (induction xs) (auto simp: set_insert_sorted)

lemma js_sort_descending:
  "sorted_wrt (\<lambda>a b. f b \<le> (f a :: nat)) (js_sort (\<lambda>a b. int (f b) - int (f a)) xs)"
  unfolding js_sort_def by (induction xs) (simp_all add: insert_sorted_descending)

lemma top_sources_sorted:
  "sorted_wrt (\<lambda>a b. count b \<le> count a) (top_sources (summarizeQueryActivity entries))"
proof -
  let ?sorted = "js_sort (\<lambda>a b. int (snd b) - int (snd a)) (foldl count_entry [] entries)"
  have "sorted_wrt (\<lambda>a b. snd b \<le> snd a) (take 20 ?sorted)"
    by (rule sorted_wrt_take) (rule js_sort_descending)
  then show ?thesis
    by (simp add: summarizeQueryActivity_def Let_def sorted_wrt_map case_prod_unfold)
qed

lemma top_sources_length: "length (top_sources (summarizeQueryActivity entries)) \<le> 20"
  by (simp add: summarizeQueryActivity_def Let_def)

lemma avg_None_iff: "avg nums = None \<longleftrightarrow> nums = []"
  by (simp add: avg_def)

lemma map_filter_Nil_iff: "List.map_filter f xs = [] \<longleftrightarrow> (\<forall>x\<in>set xs. f x = None)"
  by (induction xs) (auto simp: List.map_filter_simps split: option.splits)

lemma finite_number_None_iff:
  "finite_number n = None \<longleftrightarrow> \<not> (\<exists>x. n = Some x \<and> isFinite x)"
  by (auto simp: finite_number_def split: option.splits)

lemma avg_field_None_iff:
  "avg (List.map_filter finite_number (map fld entries)) = None
     \<longleftrightarrow> \<not> (\<exists>e\<in>set entries. \<exists>x. fld e = Some x \<and> isFinite x)"
  by (simp add: avg_None_iff map_filter_Nil_iff finite_number_None_iff)

text \<open>
  Claim C9. For every list of entries: \<open>success_rate\<close> is a finite number between 0
  and 1 (so not \<open>NaN\<close>), and is 0 for the empty list; \<open>top_sources\<close> has at most 20 elements, in non-increasing order of
  \<open>count\<close>; \<open>unique_sources_count\<close> is the number of distinct source strings of all
  entries; and each of the three averages is \<open>undefined\<close> exactly when no entry has a
  finite number in that field.
\<close>

theorem summarizeQueryActivity_properties:
  "(\<exists>r. success_rate (summarizeQueryActivity entries) = Finite r \<and> 0 \<le> r \<and> r \<le> 1)
   \<and> success_rate (summarizeQueryActivity []) = Finite 0
   \<and> length (top_sources (summarizeQueryActivity entries)) \<le> 20
   \<and> sorted_wrt (\<lambda>a b. count a \<ge> count b) (top_sources (summarizeQueryActivity entries))
   \<and> unique_sources_count (summarizeQueryActivity entries)
       = card (\<Union>e\<in>set entries. set (case sources e of None \<Rightarrow> [] | Some ss \<Rightarrow> ss))
   \<and> (avg_retrieval_time_ms (summarizeQueryActivity entries) = None
        \<longleftrightarrow> \<not> (\<exists>e\<in>set entries. \<exists>x. retrieval_time_ms e = Some x \<and> isFinite x))
   \<and> (avg_generation_time_ms (summarizeQueryActivity entries) = None
        \<longleftrightarrow> \<not> (\<exists>e\<in>set entries. \<exists>x. generation_time_ms e = Some x \<and> isFinite x))
   \<and> (avg_total_time_ms (summarizeQueryActivity entries) = None
        \<longleftrightarrow> \<not> (\<exists>e\<in>set entries. \<exists>x. total_time_ms e = Some x \<and> isFinite x))"
proof -
  have r: "avg_retrieval_time_ms (summarizeQueryActivity entries) = None
        \<longleftrightarrow> \<not> (\<exists>e\<in>set entries. \<exists>x. retrieval_time_ms e = Some x \<and> isFinite x)"
    using avg_field_None_iff [of retrieval_time_ms entries]
    by (simp add: summarizeQueryActivity_def Let_def)
  have g: "avg_generation_time_ms (summarizeQueryActivity entries) = None
        \<longleftrightarrow> \<not> (\<exists>e\<in>set entries. \<exists>x. generation_time_ms e = Some x \<and> isFinite x)"
    using avg_field_None_iff [of generation_time_ms entries]
    by (simp add: summarizeQueryActivity_def Let_def)
  have t: "avg_total_time_ms (summarizeQueryActivity entries) = None
        \<longleftrightarrow> \<not> (\<exists>e\<in>set entries. \<exists>x. total_time_ms e = Some x \<and> isFinite x)"
    using avg_field_None_iff [of total_time_ms entries]
    by (simp add: summarizeQueryActivity_def Let_def)
  have z: "success_rate (summarizeQueryActivity []) = Finite 0"
    by (simp add: summarizeQueryActivity_def Let_def)
  have u: "unique_sources_count (summarizeQueryActivity entries)
       = card (\<Union>e\<in>set entries. set (case sources e of None \<Rightarrow> [] | Some ss \<Rightarrow> ss))"
    using unique_sources [of entries] by (simp add: entry_sources_def)
  from success_rate_bounds [of entries] z top_sources_length [of entries]
    top_sources_sorted [of entries] u r g t
  show ?thesis by blast
qed

text \<open>The summary of a successful and a failed query.\<close>

theorem summarizeQueryActivity_properties_witness:
  "(let s = summarizeQueryActivity
      [\<lparr>id_entry = str ''2'', timestamp = str ''t2'', query = str ''q2'',
         sources = Some [str ''a.pdf'', str ''b.pdf''],
         retrieval_time_ms = Some (Finite 10), generation_time_ms = Some NaN,
         total_time_ms = None, answer_length_chars = None, success = True,
         error_message = None\<rparr>,
       \<lparr>id_entry = str ''1'', timestamp = str ''t1'', query = str ''q1'',
         sources = Some [str ''b.pdf''],
         retrieval_time_ms = Some (Finite 13), generation_time_ms = None,
         total_time_ms = None, answer_length_chars = None, success = False,
         error_message = Some (str ''Query failed'')\<rparr>]
    in (\<exists>r. success_rate s = Finite r \<and> 0 \<le> r \<and> r \<le> 1)
       \<and> length (top_sources s) \<le> 20
       \<and> sorted_wrt (\<lambda>a b. count a \<ge> count b) (top_sources s)
       \<and> unique_sources_count s = card {str ''a.pdf'', str ''b.pdf''}
       \<and> avg_retrieval_time_ms s \<noteq> None
       \<and> avg_generation_time_ms s = None
       \<and> avg_total_time_ms s = None)"
proof -
  let ?es = "[\<lparr>id_entry = str ''2'', timestamp = str ''t2'', query = str ''q2'',
         sources = Some [str ''a.pdf'', str ''b.pdf''],
         retrieval_time_ms = Some (Finite 10), generation_time_ms = Some NaN,
         total_time_ms = None, answer_length_chars = None, success = True,
         error_message = None\<rparr>,
       \<lparr>id_entry = str ''1'', timestamp = str ''t1'', query = str ''q1'',
         sources = Some [str ''b.pdf''],
         retrieval_time_ms = Some (Finite 13), generation_time_ms = None,
         total_time_ms = None, answer_length_chars = None, success = False,
         error_message = Some (str ''Query failed'')\<rparr>]"
  have u: "(\<Union>e\<in>set ?es. set (case sources e of None \<Rightarrow> [] | Some ss \<Rightarrow> ss))
             = {str ''a.pdf'', str ''b.pdf''}"
    by auto
  have r: "\<exists>e\<in>set ?es. \<exists>x. retrieval_time_ms e = Some x \<and> isFinite x"
    by simp
  have g: "\<not> (\<exists>e\<in>set ?es. \<exists>x. generation_time_ms e = Some x \<and> isFinite x)"
    by simp
  have t: "\<not> (\<exists>e\<in>set ?es. \<exists>x. total_time_ms e = Some x \<and> isFinite x)"
    by simp
  from summarizeQueryActivity_properties [of ?es] u r g t
  show ?thesis unfolding Let_def by presburger
qed

section \<open>Properties of the configuration\<close>

lemma trim_empty_iff: "trim s = [] \<longleftrightarrow> (\<forall>c\<in>set s. is_whitespace c)"
proof
  assume "\<forall>c\<in>set s. is_whitespace c"
  then show "trim s = []"
    by (auto simp: trim_def dest: set_dropWhileD)
next
  assume t: "trim s = []"
  show "\<forall>c\<in>set s. is_whitespace c"
  proof (rule ccontr)
    assume "\<not> (\<forall>c\<in>set s. is_whitespace c)"
    then have n: "dropWhile is_whitespace s \<noteq> []"
      by (simp only: dropWhile_eq_Nil_conv not_False_eq_True)
    then have "\<not> is_whitespace (hd (dropWhile is_whitespace s))"
      by (rule hd_dropWhile)
    moreover from n have "hd (dropWhile is_whitespace s) \<in> set (rev (dropWhile is_whitespace s))"
      by simp
    ultimately have "dropWhile is_whitespace (rev (dropWhile is_whitespace s)) \<noteq> []"
      unfolding dropWhile_eq_Nil_conv by blast
    with t show False
      by (simp add: trim_def)
  qed
qed

lemma trim_nonempty_iff: "length (trim s) > 0 \<longleftrightarrow> (\<exists>c\<in>set s. \<not> is_whitespace c)"
  by (simp add: trim_empty_iff)

lemma nonblank_string_simps:
  "nonblank_string (JStr s) = (if \<exists>c\<in>set s. \<not> is_whitespace c then Some s else None)"
  "nonblank_string JNull = None"
  "nonblank_string (JBool b) = None"
  "nonblank_string (JNum n) = None"
  "nonblank_string (JArr xs) = None"
  "nonblank_string (JObj ps) = None"
  by (simp_all add: nonblank_string_def trim_empty_iff)

lemma nonblank_strings:
  "List.map_filter nonblank_string ms =
     [s. JStr s \<leftarrow> ms, \<exists>c\<in>set s. \<not> is_whitespace c]"
proof (induction ms)
  case Nil
  show ?case by (simp add: List.map_filter_simps)
next
  case (Cons m ms)
  then show ?case
    by (cases m) (simp_all add: List.map_filter_simps nonblank_string_simps)
qed

lemma normalize_non_object:
  "\<forall>ps. raw \<noteq> JObj ps \<Longrightarrow> normalizeSystemConfig raw = mockConfig"
  by (cases raw) (simp_all add: normalizeSystemConfig_def string_or_def number_or_def)

text \<open>
  Claim C10, as the code has it. A configuration with a \<open>language_models\<close> array of
  wrongly typed elements does not get the default of \<open>mockConfig\<close>, and its legacy
  \<open>language_model\<close> string is not lifted: the array is filtered, here to the empty list.
\<close>

theorem normalizeSystemConfig_counterexample:
  "language_models (normalizeSystemConfig
      (JObj [(str ''language_models'', JArr [JNum (Finite 1)]),
             (str ''language_model'', JStr (str ''Mistral 7B''))])) = []
   \<and> language_models mockConfig = [str ''LLaMA 3.2 8B'']"
  by (simp add: normalizeSystemConfig_def Let_def List.map_filter_simps nonblank_string_def
        mockConfig_def)

text \<open>
  Claim C10, amended. \<open>normalizeSystemConfig\<close> is total, and its result is a
  \<open>SystemConfig\<close>, whose fields have their declared types. Every input that is not an
  object with properties gives \<open>mockConfig\<close>. Each of the string fields
  \<open>embedding_model\<close>, \<open>vector_database\<close>, \<open>storage_path\<close> and of the number fields
  \<open>chunk_size\<close>, \<open>chunk_overlap\<close> is passed through when it has its type and replaced by
  the default of \<open>mockConfig\<close> otherwise. \<open>language_models\<close> is, when the input has an
  array there, the non-blank strings of that array in order (no default, even when none
  is left); otherwise the one-element list of a legacy \<open>language_model\<close> that is a
  non-blank string; and the default otherwise.
\<close>

theorem normalizeSystemConfig_fields:
  "((\<forall>ps. raw \<noteq> JObj ps) \<longrightarrow> normalizeSystemConfig raw = mockConfig)
   \<and> embedding_model (normalizeSystemConfig raw) =
       (case get_prop raw (str ''embedding_model'') of
          Some (JStr s) \<Rightarrow> s | _ \<Rightarrow> embedding_model mockConfig)
   \<and> vector_database (normalizeSystemConfig raw) =
       (case get_prop raw (str ''vector_database'') of
          Some (JStr s) \<Rightarrow> s | _ \<Rightarrow> vector_database mockConfig)
   \<and> storage_path (normalizeSystemConfig raw) =
       (case get_prop raw (str ''storage_path'') of
          Some (JStr s) \<Rightarrow> s | _ \<Rightarrow> storage_path mockConfig)
   \<and> chunk_size (normalizeSystemConfig raw) =
       (case get_prop raw (str ''chunk_size'') of
          Some (JNum n) \<Rightarrow> n | _ \<Rightarrow> chunk_size mockConfig)
   \<and> chunk_overlap (normalizeSystemConfig raw) =
       (case get_prop raw (str ''chunk_overlap'') of
          Some (JNum n) \<Rightarrow> n | _ \<Rightarrow> chunk_overlap mockConfig)
   \<and> language_models (normalizeSystemConfig raw) =
       (case get_prop raw (str ''language_models'') of
          Some (JArr ms) \<Rightarrow> [s. JStr s \<leftarrow> ms, \<exists>c\<in>set s. \<not> is_whitespace c]
        | _ \<Rightarrow>
           (case get_prop raw (str ''language_model'') of
              Some (JStr s) \<Rightarrow>
                if \<exists>c\<in>set s. \<not> is_whitespace c then [s] else language_models mockConfig
            | _ \<Rightarrow> language_models mockConfig))"
proof (cases "\<exists>ps. raw = JObj ps")
  case False
  then have m: "normalizeSystemConfig raw = mockConfig"
    by (intro normalize_non_object) blast
  from False have g: "get_prop raw k = None" for k
    by (cases raw) simp_all
  show ?thesis by (simp add: m g)
next
  case True
  then obtain ps where raw: "raw = JObj ps" by blast
  have e: "embedding_model (normalizeSystemConfig raw) =
       (case get_prop raw (str ''embedding_model'') of
          Some (JStr s) \<Rightarrow> s | _ \<Rightarrow> embedding_model mockConfig)"
    by (simp add: raw normalizeSystemConfig_def string_or_def Let_def)
  have v: "vector_database (normalizeSystemConfig raw) =
       (case get_prop raw (str ''vector_database'') of
          Some (JStr s) \<Rightarrow> s | _ \<Rightarrow> vector_database mockConfig)"
    by (simp add: raw normalizeSystemConfig_def string_or_def Let_def)
  have s: "storage_path (normalizeSystemConfig raw) =
       (case get_prop raw (str ''storage_path'') of
          Some (JStr s) \<Rightarrow> s | _ \<Rightarrow> storage_path mockConfig)"
    by (simp add: raw normalizeSystemConfig_def string_or_def Let_def)
  have c: "chunk_size (normalizeSystemConfig raw) =
       (case get_prop raw (str ''chunk_size'') of
          Some (JNum n) \<Rightarrow> n | _ \<Rightarrow> chunk_size mockConfig)"
    by (simp add: raw normalizeSystemConfig_def number_or_def Let_def)
  have o: "chunk_overlap (normalizeSystemConfig raw) =
       (case get_prop raw (str ''chunk_overlap'') of
          Some (JNum n) \<Rightarrow> n | _ \<Rightarrow> chunk_overlap mockConfig)"
    by (simp add: raw normalizeSystemConfig_def number_or_def Let_def)
  have l: "language_models (normalizeSystemConfig raw) =
       (case get_prop raw (str ''language_models'') of
          Some (JArr ms) \<Rightarrow> [s. JStr s \<leftarrow> ms, \<exists>c\<in>set s. \<not> is_whitespace c]
        | _ \<Rightarrow>
           (case get_prop raw (str ''language_model'') of
              Some (JStr s) \<Rightarrow>
                if \<exists>c\<in>set s. \<not> is_whitespace c then [s] else language_models mockConfig
            | _ \<Rightarrow> language_models mockConfig))"
    by (auto simp add: raw normalizeSystemConfig_def Let_def nonblank_strings trim_empty_iff
          split: option.splits js_value.splits)
  from e v s c o l raw show ?thesis by simp
qed

text \<open>An array is not an object with properties; a legacy string is lifted.\<close>

theorem normalizeSystemConfig_fields_witness:
  "(\<forall>ps. JArr [JStr (str ''x'')] \<noteq> JObj ps)
   \<and> normalizeSystemConfig (JArr [JStr (str ''x'')]) = mockConfig
   \<and> language_models (normalizeSystemConfig
         (JObj [(str ''language_model'', JStr (str ''Mistral 7B'')),
                (str ''chunk_size'', JStr (str ''512''))])) = [str ''Mistral 7B'']
   \<and> chunk_size (normalizeSystemConfig
         (JObj [(str ''language_model'', JStr (str ''Mistral 7B'')),
                (str ''chunk_size'', JStr (str ''512''))])) = Finite 512"
proof -
  have w: "\<exists>c\<in>set (str ''Mistral 7B''). \<not> is_whitespace c"
    by (simp add: str_def is_whitespace_def)
  from normalizeSystemConfig_fields [of "JArr [JStr (str ''x'')]"]
    normalizeSystemConfig_fields
      [of "JObj [(str ''language_model'', JStr (str ''Mistral 7B'')),
                 (str ''chunk_size'', JStr (str ''512''))]"] w
  show ?thesis by (simp add: mockConfig_def)
qed

section \<open>Properties of the backend calls\<close>

lemma queryRAG_try_fails: "backend_call_fails outcome \<Longrightarrow> isl (queryRAG_try outcome)"
  by (auto simp: backend_call_fails_def queryRAG_try_def split: fetch_result.splits)

lemma autoDetectSecurity_try_fails:
  "backend_call_errors outcome \<Longrightarrow> isl (autoDetectSecurity_try outcome)"
  by (auto simp: backend_call_errors_def autoDetectSecurity_try_def split: fetch_result.splits)

text \<open>
  Claim C1, as the code has it. With a backend that cannot be reached the call fails, and
  \<open>queryRAG\<close> does not surface a failure: it resolves to the simulated response.
\<close>

theorem queryRAG_failure_counterexample:
  "backend_call_fails
     (backend_unreachable (queryRAG_request (str ''hi'') (str ''en'') CONFIDENTIAL None None))
   \<and> \<not> isl (fst (queryRAG backend_unreachable (str ''hi'') None None None None))
   \<and> fst (queryRAG backend_unreachable (str ''hi'') None None None None)
       = Inr (simulated_response (str ''hi''))"
  by (simp add: backend_call_fails_def backend_unreachable_def queryRAG_def queryRAG_try_def
        Let_def)

text \<open>
  Claim C1, amended. For every query whose backend call fails (\<open>fetch\<close> rejects or the
  response is not \<open>ok\<close>), \<open>queryRAG\<close> does not reject: it resolves to the simulated
  response, whose answer quotes the query, with three fixed sources and the fixed timings
  245 and 1823.
\<close>

theorem queryRAG_simulated_on_failure:
  assumes "backend_call_fails
     (fetch (queryRAG_request query_text
        (case language of None \<Rightarrow> str ''en'' | Some l \<Rightarrow> l)
        (case securityClearance of None \<Rightarrow> CONFIDENTIAL | Some c \<Rightarrow> c)
        documentIds fastMode))"
  shows "fst (queryRAG fetch query_text language securityClearance documentIds fastMode)
           = Inr (simulated_response query_text)"
  using queryRAG_try_fails [OF assms]
  by (auto simp: queryRAG_def Let_def split: sum.splits)

text \<open>A backend that answers 500.\<close>

theorem queryRAG_simulated_on_failure_witness:
  "backend_call_fails
     (backend_failing (queryRAG_request (str ''hi'') (str ''ko'') PUBLIC (Some [str ''d1'']) (Some True)))
   \<and> fst (queryRAG backend_failing (str ''hi'') (Some (str ''ko'')) (Some PUBLIC)
            (Some [str ''d1'']) (Some True))
       = Inr (simulated_response (str ''hi''))"
proof -
  have h: "backend_call_fails
     (backend_failing (queryRAG_request (str ''hi'')
        (case Some (str ''ko'') of None \<Rightarrow> str ''en'' | Some l \<Rightarrow> l)
        (case Some PUBLIC of None \<Rightarrow> CONFIDENTIAL | Some c \<Rightarrow> c)
        (Some [str ''d1'']) (Some True)))"
    by (simp add: backend_call_fails_def backend_failing_def)
  from h queryRAG_simulated_on_failure [of backend_failing "str ''hi''" "Some (str ''ko'')"
      "Some PUBLIC" "Some [str ''d1'']" "Some True"]
  show ?thesis by simp
qed

text \<open>
  Claim C5. Every call of \<open>queryRAG\<close>, whichever of its optional arguments the caller
  gives or leaves out, sends one request, a POST to \<open>/query\<close> of the backend, whose body
  is the JSON object of exactly the fields \<open>query\<close>, \<open>language\<close>, \<open>security_clearance\<close>,
  \<open>document_ids\<close> and \<open>fast_mode\<close>, in this order, holding the arguments of the caller as
  they are: the query and the language as given, the clearance as the string of its
  level, \<open>document_ids\<close> as the array of the ids and \<open>fast_mode\<close> as the boolean, both
  \<open>null\<close> when the caller gives none. A language left out is \<open>en\<close>, a clearance left out
  is \<open>CONFIDENTIAL\<close>, each on its own.
\<close>

theorem queryRAG_request_fields:
  "\<exists>request. snd (queryRAG fetch query_text language securityClearance documentIds fastMode)
                 = [request]
      \<and> url request = str ''http://localhost:8000/query''
      \<and> http_method request = str ''POST''
      \<and> JSON_parse (body request) = Inr (JObj
           [(str ''query'', JStr query_text),
            (str ''language'', JStr (case language of None \<Rightarrow> str ''en'' | Some l \<Rightarrow> l)),
            (str ''security_clearance'',
               JStr (case securityClearance of
                       None \<Rightarrow> str ''CONFIDENTIAL''
                     | Some PUBLIC \<Rightarrow> str ''PUBLIC''
                     | Some INTERNAL \<Rightarrow> str ''INTERNAL''
                     | Some CONFIDENTIAL \<Rightarrow> str ''CONFIDENTIAL''
                     | Some RESTRICTED \<Rightarrow> str ''RESTRICTED''
                     | Some TOP_SECRET \<Rightarrow> str ''TOP_SECRET'')),
            (str ''document_ids'',
               case documentIds of None \<Rightarrow> JNull | Some ids \<Rightarrow> JArr (map JStr ids)),
            (str ''fast_mode'', case fastMode of None \<Rightarrow> JNull | Some b \<Rightarrow> JBool b)])"
  by (simp add: queryRAG_def Let_def queryRAG_request_def JSON_stringify_def nullable_def
        API_BASE_URL_def str_def split: option.splits SecurityLevel.splits)

text \<open>
  Claim C3. When the backend call of \<open>autoDetectSecurity\<close> fails or errors (\<open>fetch\<close>
  rejects, the response is not \<open>ok\<close>, or its body is not JSON), the result has
  \<open>detected_level\<close> PUBLIC, \<open>confidence\<close> 0, \<open>findings_count\<close> 0, no findings, and a
  recommendation that says "Defaulting to PUBLIC". With any backend at all the call does
  not reject.
\<close>

theorem autoDetectSecurity_default_on_failure:
  assumes "backend_call_errors (fetch (autoDetectSecurity_request documentIds))"
  shows "(\<exists>r rec. fst (autoDetectSecurity fetch documentIds) = Inr r
           \<and> get_prop r (str ''detected_level'') = Some (JStr (str ''PUBLIC''))
           \<and> get_prop r (str ''confidence'') = Some (JNum (Finite 0))
           \<and> get_prop r (str ''findings_count'') = Some (JNum (Finite 0))
           \<and> get_prop r (str ''findings'') = Some (JArr [])
           \<and> get_prop r (str ''recommendation'') = Some (JStr rec)
           \<and> sublist (str ''Defaulting to PUBLIC'') rec)
         \<and> \<not> isl (fst (autoDetectSecurity fetch' documentIds'))"
proof -
  have r: "fst (autoDetectSecurity fetch documentIds) = Inr default_detection"
    using autoDetectSecurity_try_fails [OF assms]
    by (auto simp: autoDetectSecurity_def Let_def split: sum.splits)
  have s: "sublist (str ''Defaulting to PUBLIC'')
             (str ''Unable to analyze documents. Defaulting to PUBLIC access.'')"
  proof -
    have "str ''Unable to analyze documents. Defaulting to PUBLIC access.'' =
        str ''Unable to analyze documents. '' @ str ''Defaulting to PUBLIC'' @ str '' access.''"
      by (simp add: str_def)
    then show ?thesis unfolding sublist_def by blast
  qed
  have p: "get_prop default_detection (str ''detected_level'') = Some (JStr (str ''PUBLIC''))"
    "get_prop default_detection (str ''confidence'') = Some (JNum (Finite 0))"
    "get_prop default_detection (str ''findings_count'') = Some (JNum (Finite 0))"
    "get_prop default_detection (str ''findings'') = Some (JArr [])"
    "get_prop default_detection (str ''recommendation'') =
       Some (JStr (str ''Unable to analyze documents. Defaulting to PUBLIC access.''))"
    by (simp_all add: default_detection_def)
  have n: "\<not> isl (fst (autoDetectSecurity fetch' documentIds'))"
    by (simp add: autoDetectSecurity_def Let_def split: sum.splits)
  from r s p n show ?thesis by blast
qed

text \<open>A backend that answers 500, and one that cannot be reached.\<close>

theorem autoDetectSecurity_default_on_failure_witness:
  "backend_call_errors (backend_failing (autoDetectSecurity_request [str ''doc-1'']))
   \<and> (\<exists>r rec. fst (autoDetectSecurity backend_failing [str ''doc-1'']) = Inr r
           \<and> get_prop r (str ''detected_level'') = Some (JStr (str ''PUBLIC''))
           \<and> get_prop r (str ''confidence'') = Some (JNum (Finite 0))
           \<and> get_prop r (str ''findings_count'') = Some (JNum (Finite 0))
           \<and> get_prop r (str ''findings'') = Some (JArr [])
           \<and> get_prop r (str ''recommendation'') = Some (JStr rec)
           \<and> sublist (str ''Defaulting to PUBLIC'') rec)
   \<and> \<not> isl (fst (autoDetectSecurity backend_unreachable []))"
proof -
  have h: "backend_call_errors (backend_failing (autoDetectSecurity_request [str ''doc-1'']))"
    by (simp add: backend_call_errors_def backend_failing_def)
  from h autoDetectSecurity_default_on_failure
         [of backend_failing "[str ''doc-1'']" backend_unreachable "[]"]
  show ?thesis by blast
qed

text \<open>
  Claim C4. The default that \<open>autoDetectSecurity\<close> returns for an unreachable backend has
  \<open>detected_level\<close> PUBLIC and \<open>level_value\<close> 1, where the ordinal of PUBLIC is 0.
\<close>

theorem default_detection_level_value:
  "fst (autoDetectSecurity backend_unreachable [str ''doc-1'']) = Inr default_detection
   \<and> get_prop default_detection (str ''detected_level'') = Some (JStr (level_name PUBLIC))
   \<and> get_prop default_detection (str ''level_value'') = Some (JNum (Finite 1))
   \<and> level_ordinal PUBLIC = 0"
  by (simp add: autoDetectSecurity_def Let_def autoDetectSecurity_try_def
        backend_unreachable_def default_detection_def)

end
